theory Spec2Isabelle
  imports Complex_Main "HOL-Library.Sublist"
begin

section \<open>Python values and exceptions\<close>

text \<open>
  The program is dynamically typed: whatever \<^verbatim>\<open>json.loads\<close> returns is stored in the
  dataclasses without any check. The values it can return are modelled by one datatype.
  A Python \<^verbatim>\<open>dict\<close> keeps its insertion order, so an object is an association list;
  a \<^verbatim>\<open>float\<close> is a value of the type parameter \<open>'f\<close>, whose arithmetic is supplied
  from outside (see \<open>float_ops\<close> below).
\<close>

datatype 'f json =
    JNull
  | JBool bool
  | JInt int
  | JFloat 'f
  | JStr string
  | JArr "'f json list"
  | JObj "(string \<times> 'f json) list"

text \<open>The exceptions that the body of the \<^verbatim>\<open>try\<close> blocks can raise.\<close>

datatype pyerror =
    JSONDecodeError
  | KeyError string
  | TypeError
  | AttributeError
  | ZeroDivisionError
  | OverflowError
  | APIError

text \<open>
  Floating-point arithmetic: \<open>fl_round\<close> rounds a rational to the nearest double,
  \<open>fl_add\<close> is the addition used by \<^verbatim>\<open>sum\<close> and \<open>fl_div\<close> the division of two
  doubles with a non-zero divisor. The literal \<^verbatim>\<open>0.0\<close> is \<open>fl_round fl 0\<close>.
\<close>

record 'f float_ops =
  fl_round :: "rat \<Rightarrow> 'f"
  fl_add :: "'f \<Rightarrow> 'f \<Rightarrow> 'f"
  fl_div :: "'f \<Rightarrow> 'f \<Rightarrow> 'f"

text \<open>
  A rational whose nearest double would be \<open>2 ^ 1024\<close> or more in magnitude cannot be
  converted: Python raises \<^verbatim>\<open>OverflowError\<close>.
\<close>

definition float_overflows :: "rat \<Rightarrow> bool" where
  "float_overflows q \<longleftrightarrow> 2 ^ 1024 - 2 ^ 970 \<le> \<bar>q\<bar>"

definition int_to_float :: "'f float_ops \<Rightarrow> int \<Rightarrow> pyerror + 'f" where
  "int_to_float fl n =
     (if float_overflows (of_int n) then Inl OverflowError
      else Inr (fl_round fl (of_int n)))"

section \<open>String search and slicing\<close>

text \<open>\<^verbatim>\<open>str.find\<close>: the index of the first occurrence, or \<open>-1\<close>.\<close>

fun find_char :: "char \<Rightarrow> string \<Rightarrow> int" where
  "find_char c [] = -1"
| "find_char c (x # xs) =
     (if x = c then 0
      else (let r = find_char c xs in if r = -1 then -1 else r + 1))"

text \<open>\<^verbatim>\<open>str.rfind\<close>: the index of the last occurrence, or \<open>-1\<close>.\<close>

fun rfind_char :: "char \<Rightarrow> string \<Rightarrow> int" where
  "rfind_char c [] = -1"
| "rfind_char c (x # xs) =
     (let r = rfind_char c xs in
      if r \<noteq> -1 then r + 1 else if x = c then 0 else -1)"

text \<open>
  \<^verbatim>\<open>s[start:end]\<close>: a negative bound counts from the end, every bound is clamped to
  \<open>0 .. len s\<close>, and the slice is empty when the bounds cross.
\<close>

definition py_slice :: "'a list \<Rightarrow> int \<Rightarrow> int \<Rightarrow> 'a list" where
  "py_slice s start end' =
     (let n = int (length s);
          a = (if start < 0 then max (start + n) 0 else min start n);
          b = (if end' < 0 then max (end' + n) 0 else min end' n)
      in take (nat (b - a)) (drop (nat a) s))"

section \<open>The data classes\<close>

record IdeaInput =
  idea :: string
  target_users :: string
  time_constraint :: int
  team_size :: int
  goals :: string

record 'f EvaluationScore =
  dimension :: "'f json"
  score :: "'f json"
  reasoning :: "'f json"

record 'f AnalysisResult =
  executive_summary :: "'f json"
  scores :: "'f EvaluationScore list"
  detailed_plan :: "'f json"
  risk_flags :: "'f json"
  build_checklist :: "'f json"
  tech_stack :: "'f json"
  pitch_deck :: "'f json"
  overall_score :: "'f"

section \<open>Interpreting the reply\<close>

text \<open>Sequencing: an exception skips the rest of the block.\<close>

definition and_then :: "pyerror + 'a \<Rightarrow> ('a \<Rightarrow> pyerror + 'b) \<Rightarrow> pyerror + 'b" where
  "and_then m f = (case m of Inl e \<Rightarrow> Inl e | Inr x \<Rightarrow> f x)"

text \<open>\<^verbatim>\<open>data[key]\<close>: only a dict can be subscripted by a string.\<close>

fun subscript :: "'f json \<Rightarrow> string \<Rightarrow> pyerror + 'f json" where
  "subscript (JObj kvs) k =
     (case map_of kvs k of None \<Rightarrow> Inl (KeyError k) | Some v \<Rightarrow> Inr v)"
| "subscript _ k = Inl TypeError"

text \<open>\<^verbatim>\<open>data.get(key, default)\<close>: only a dict has the method.\<close>

fun dict_get :: "'f json \<Rightarrow> string \<Rightarrow> 'f json \<Rightarrow> pyerror + 'f json" where
  "dict_get (JObj kvs) k d =
     (case map_of kvs k of None \<Rightarrow> Inr d | Some v \<Rightarrow> Inr v)"
| "dict_get _ k d = Inl AttributeError"

text \<open>
  \<^verbatim>\<open>for score in x\<close>: a list yields its elements, a dict its keys, a string its
  characters; nothing else is iterable.
\<close>

fun py_iter :: "'f json \<Rightarrow> pyerror + 'f json list" where
  "py_iter (JArr xs) = Inr xs"
| "py_iter (JObj kvs) = Inr (map (\<lambda>kv. JStr (fst kv)) kvs)"
| "py_iter (JStr s) = Inr (map (\<lambda>c. JStr [c]) s)"
| "py_iter _ = Inl TypeError"

text \<open>
  \<^verbatim>\<open>EvaluationScore(**score)\<close>: the argument must be a dict; a key that is not a
  field of the dataclass and a field without a key are both a \<^verbatim>\<open>TypeError\<close>.
\<close>

definition score_fields :: "string list" where
  "score_fields = [''dimension'', ''score'', ''reasoning'']"

fun EvaluationScore_kwargs :: "'f json \<Rightarrow> pyerror + 'f EvaluationScore" where
  "EvaluationScore_kwargs (JObj kvs) =
     (if \<not> list_all (\<lambda>kv. fst kv \<in> set score_fields) kvs then Inl TypeError
      else (case (map_of kvs ''dimension'', map_of kvs ''score'', map_of kvs ''reasoning'') of
              (Some d, Some s, Some r) \<Rightarrow> Inr \<lparr>dimension = d, score = s, reasoning = r\<rparr>
            | _ \<Rightarrow> Inl TypeError))"
| "EvaluationScore_kwargs _ = Inl TypeError"

text \<open>The list comprehension: the first exception ends it.\<close>

fun map_result :: "('a \<Rightarrow> pyerror + 'b) \<Rightarrow> 'a list \<Rightarrow> pyerror + 'b list" where
  "map_result f [] = Inr []"
| "map_result f (x # xs) =
     (case f x of Inl e \<Rightarrow> Inl e
      | Inr y \<Rightarrow> (case map_result f xs of Inl e \<Rightarrow> Inl e | Inr ys \<Rightarrow> Inr (y # ys)))"

text \<open>
  \<^verbatim>\<open>sum(score.score for score in scores)\<close> starts from the integer \<open>0\<close> and adds
  each value with \<^verbatim>\<open>+\<close>. Integers are unbounded, \<^verbatim>\<open>True\<close> and \<^verbatim>\<open>False\<close> count
  as \<open>1\<close> and \<open>0\<close>, an integer meeting a float is converted first, and
  every other operand is a \<^verbatim>\<open>TypeError\<close>.
\<close>

datatype 'f pynum = PInt int | PFloat 'f

fun py_add :: "'f float_ops \<Rightarrow> 'f pynum \<Rightarrow> 'f json \<Rightarrow> pyerror + 'f pynum" where
  "py_add fl (PInt a) (JInt n) = Inr (PInt (a + n))"
| "py_add fl (PInt a) (JBool b) = Inr (PInt (a + (if b then 1 else 0)))"
| "py_add fl (PInt a) (JFloat f) =
     (case int_to_float fl a of Inl e \<Rightarrow> Inl e
      | Inr g \<Rightarrow> Inr (PFloat (fl_add fl g f)))"
| "py_add fl (PFloat g) (JInt n) =
     (case int_to_float fl n of Inl e \<Rightarrow> Inl e
      | Inr h \<Rightarrow> Inr (PFloat (fl_add fl g h)))"
| "py_add fl (PFloat g) (JBool b) =
     Inr (PFloat (fl_add fl g (fl_round fl (if b then 1 else 0))))"
| "py_add fl (PFloat g) (JFloat f) = Inr (PFloat (fl_add fl g f))"
| "py_add fl _ _ = Inl TypeError"

fun py_sum_from :: "'f float_ops \<Rightarrow> 'f pynum \<Rightarrow> 'f json list \<Rightarrow> pyerror + 'f pynum" where
  "py_sum_from fl acc [] = Inr acc"
| "py_sum_from fl acc (x # xs) =
     (case py_add fl acc x of Inl e \<Rightarrow> Inl e | Inr acc' \<Rightarrow> py_sum_from fl acc' xs)"

definition py_sum :: "'f float_ops \<Rightarrow> 'f json list \<Rightarrow> pyerror + 'f pynum" where
  "py_sum fl xs = py_sum_from fl (PInt 0) xs"

text \<open>
  \<^verbatim>\<open>total / len(scores)\<close>: true division by an integer. Dividing by zero raises;
  the quotient of two integers is rounded once, and raises when it is out of range.
\<close>

fun py_truediv :: "'f float_ops \<Rightarrow> 'f pynum \<Rightarrow> nat \<Rightarrow> pyerror + 'f" where
  "py_truediv fl (PInt a) n =
     (if n = 0 then Inl ZeroDivisionError
      else if float_overflows (of_int a / of_nat n) then Inl OverflowError
      else Inr (fl_round fl (of_int a / of_nat n)))"
| "py_truediv fl (PFloat g) n =
     (if n = 0 then Inl ZeroDivisionError
      else case int_to_float fl (int n) of Inl e \<Rightarrow> Inl e
           | Inr d \<Rightarrow> Inr (fl_div fl g d))"

text \<open>The statements of the \<^verbatim>\<open>try\<close> block that follow \<^verbatim>\<open>json.loads\<close>, in their order.\<close>

definition build_result :: "'f float_ops \<Rightarrow> 'f json \<Rightarrow> pyerror + 'f AnalysisResult" where
  "build_result fl data =
     and_then (subscript data ''scores'') (\<lambda>sv.
     and_then (py_iter sv) (\<lambda>items.
     and_then (map_result EvaluationScore_kwargs items) (\<lambda>scs.
     and_then (py_sum fl (map score scs)) (\<lambda>total.
     and_then (py_truediv fl total (length scs)) (\<lambda>overall.
     and_then (subscript data ''executive_summary'') (\<lambda>es.
     and_then (subscript data ''detailed_plan'') (\<lambda>dp.
     and_then (subscript data ''risk_flags'') (\<lambda>rf.
     and_then (subscript data ''build_checklist'') (\<lambda>bc.
     and_then (dict_get data ''tech_stack'' (JObj [])) (\<lambda>ts.
     and_then (dict_get data ''pitch_deck'' (JObj [])) (\<lambda>pd.
       Inr \<lparr>executive_summary = es, scores = scs, detailed_plan = dp,
            risk_flags = rf, build_checklist = bc, tech_stack = ts,
            pitch_deck = pd, overall_score = overall\<rparr>)))))))))))"

text \<open>
  The whole \<^verbatim>\<open>try\<close> block. The decoder \<^verbatim>\<open>json.loads\<close> belongs to the Python
  library and is a parameter: it returns the decoded value or the exception it raised.
\<close>

definition extract_json :: "string \<Rightarrow> string" where
  "extract_json response =
     (let start = find_char CHR ''{'' response;
          end' = rfind_char CHR ''}'' response + 1
      in py_slice response start end')"

definition parse_body ::
  "(string \<Rightarrow> pyerror + 'f json) \<Rightarrow> 'f float_ops \<Rightarrow> string \<Rightarrow> pyerror + 'f AnalysisResult" where
  "parse_body loads fl response =
     (case loads (extract_json response) of Inl e \<Rightarrow> Inl e
      | Inr data \<Rightarrow> build_result fl data)"

definition create_empty_result :: "'f float_ops \<Rightarrow> 'f AnalysisResult" where
  "create_empty_result fl =
     \<lparr>executive_summary = JStr ''Analysis failed'', scores = [],
      detailed_plan = JStr [], risk_flags = JArr [], build_checklist = JArr [],
      tech_stack = JObj [], pitch_deck = JObj [], overall_score = fl_round fl 0\<rparr>"

text \<open>
  \<^verbatim>\<open>_parse_claude_response\<close>: the result, and the exceptions reported through
  \<^verbatim>\<open>st.error\<close> (none on success, the caught one on failure).
\<close>

definition parse_claude_response ::
  "(string \<Rightarrow> pyerror + 'f json) \<Rightarrow> 'f float_ops \<Rightarrow> string
     \<Rightarrow> 'f AnalysisResult \<times> pyerror list" where
  "parse_claude_response loads fl response =
     (case parse_body loads fl response of
        Inl e \<Rightarrow> (create_empty_result fl, [e])
      | Inr r \<Rightarrow> (r, []))"

section \<open>Building the prompt\<close>

text \<open>
  The literal text of the f-string of \<^verbatim>\<open>_build_analysis_prompt\<close>, cut at the five
  placeholders; the last piece is cut once more around the numbered list of dimensions.
\<close>

definition prompt_intro :: string where
  \<open>prompt_intro =
     ''\<newline>'' @
     ''You are an expert hackathon mentor analyzing a team's idea. Provide a structured analysis.\<newline>'' @
     ''\<newline>'' @
     ''IDEA: ''\<close>

definition prompt_users :: string where
  \<open>prompt_users =
     ''\<newline>'' @
     ''TARGET USERS: ''\<close>

definition prompt_time :: string where
  \<open>prompt_time =
     ''\<newline>'' @
     ''TIME CONSTRAINT: ''\<close>

definition prompt_team :: string where
  \<open>prompt_team =
     '' hours\<newline>'' @
     ''TEAM SIZE: ''\<close>

definition prompt_goals :: string where
  \<open>prompt_goals =
     '' people\<newline>'' @
     ''GOALS: ''\<close>

definition prompt_analyze :: string where
  \<open>prompt_analyze =
     ''\<newline>'' @
     ''\<newline>'' @
     ''Analyze this idea across these 8 dimensions (score 0-5 each):\<newline>''\<close>

definition prompt_dimensions :: string where
  \<open>prompt_dimensions =
     ''1. Problem clarity (0-5)\<newline>'' @
     ''2. User value (0-5)\<newline>'' @
     ''3. Market size & urgency (0-5)\<newline>'' @
     ''4. Differentiation/moat (0-5)\<newline>'' @
     ''5. Technical feasibility in 48 hours (0-5)\<newline>'' @
     ''6. Scalability path (0-5)\<newline>'' @
     ''7. Data dependencies (0-5)\<newline>'' @
     ''8. Risks & compliance (0-5)\<newline>''\<close>

definition prompt_format :: string where
  \<open>prompt_format =
     ''\<newline>'' @
     ''Also prepare detailed content for a 5-slide pitch deck presentation. Each slide should have substantial, well-developed content that teams can use directly in their presentations. Make the content comprehensive and compelling for hackathon judges.\<newline>'' @
     ''\<newline>'' @
     ''Please respond in this exact JSON format:\<newline>'' @
     ''{\<newline>'' @
     ''    "executive_summary": "2-3 sentence high-level assessment",\<newline>'' @
     ''    "scores": [\<newline>'' @
     ''        {"dimension": "Problem clarity", "score": 4, "reasoning": "Clear explanation"},\<newline>'' @
     ''        // ... continue for all 8 dimensions\<newline>'' @
     ''    ],\<newline>'' @
     ''    "detailed_plan": "Structured implementation plan with key milestones",\<newline>'' @
     ''    "risk_flags": ["Risk 1", "Risk 2", "Risk 3"],\<newline>'' @
     ''    "build_checklist": ["Task 1", "Task 2", "Task 3", "..."],\<newline>'' @
     ''    "tech_stack": {\<newline>'' @
     ''        "Frontend": ["React", "TypeScript", "Tailwind CSS"],\<newline>'' @
     ''        "Backend": ["Node.js", "Express", "PostgreSQL"],\<newline>'' @
     ''        "AI/ML": ["OpenAI API", "Langchain"],\<newline>'' @
     ''        "Infrastructure": ["Vercel", "Supabase"],\<newline>'' @
     ''        "Tools": ["Git", "VS Code", "Figma"]\<newline>'' @
     ''    },\<newline>'' @
     ''    "pitch_deck": {\<newline>'' @
     ''        "slide1_problem": "Detailed problem statement (3-4 paragraphs): Start with a compelling hook, describe the pain points in detail, quantify the problem with statistics if possible, clearly define the target audience and their struggles, and explain why this problem matters now. Include emotional impact and urgency.",\<newline>'' @
     ''        "slide2_solution": "Comprehensive solution description (3-4 paragraphs): Clearly explain your solution approach, detail 3-4 key features with specific benefits, highlight what makes your solution unique compared to alternatives, describe the user experience and journey, and explain the core value proposition with concrete examples.",\<newline>'' @
     ''        "slide3_techstack": "Detailed technical approach (3-4 paragraphs): Explain your technology choices and why they're optimal for this problem, describe the system architecture and key components, highlight any innovative technical approaches or algorithms, discuss scalability and performance considerations, and mention specific frameworks, APIs, or tools that make your solution powerful.",\<newline>'' @
     ''        "slide4_market": "Comprehensive market analysis (3-4 paragraphs): Provide market size data with specific numbers (TAM, SAM, SOM if possible), identify target customer segments with demographics, analyze competitors and your competitive advantages, discuss market timing and trends that favor your solution, and include validation evidence like user interviews or early traction.",\<newline>'' @
     ''        "slide5_business_model": "Detailed business strategy (3-4 paragraphs): Clearly explain your revenue model with specific pricing strategy, describe customer acquisition channels and growth tactics, outline key partnerships and distribution strategies, provide financial projections or unit economics, discuss scalability plans and expansion opportunities, and explain your competitive moat and defensibility."\<newline>'' @
     ''    }\<newline>'' @
     ''}\<newline>''\<close>

text \<open>\<^verbatim>\<open>str\<close> of an integer, as the f-string formats the two numeric fields.\<close>

fun digits :: "nat \<Rightarrow> string" where
  "digits n =
     (if n < 10 then [char_of (48 + n)]
      else digits (n div 10) @ [char_of (48 + n mod 10)])"

declare digits.simps [simp del]

definition str_int :: "int \<Rightarrow> string" where
  "str_int i = (if i < 0 then CHR ''-'' # digits (nat (- i)) else digits (nat i))"

definition build_analysis_prompt :: "IdeaInput \<Rightarrow> string" where
  "build_analysis_prompt idea_input =
     prompt_intro @ idea idea_input @
     prompt_users @ target_users idea_input @
     prompt_time @ str_int (time_constraint idea_input) @
     prompt_team @ str_int (team_size idea_input) @
     prompt_goals @ goals idea_input @
     prompt_analyze @ prompt_dimensions @ prompt_format"

text \<open>The list kept by the constructor of \<^verbatim>\<open>HackathonIdeaCoach\<close>.\<close>

definition evaluation_dimensions :: "string list" where
  "evaluation_dimensions =
     [''Problem clarity'', ''User value'', ''Market size & urgency'',
      ''Differentiation/moat'', ''Technical feasibility in 48 hours'',
      ''Scalability path'', ''Data dependencies'', ''Risks & compliance'']"

section \<open>The whole analysis\<close>

text \<open>
  \<^verbatim>\<open>analyze_idea\<close>: the call of the model's API together with the read of
  \<^verbatim>\<open>response.content[0].text\<close> is the parameter \<open>client\<close>, which returns the reply's
  text or the exception raised. The exceptions of the interpreter are caught inside it,
  so the handler of \<^verbatim>\<open>analyze_idea\<close> sees those of the client only.
\<close>

definition analyze_idea ::
  "(string \<Rightarrow> pyerror + string) \<Rightarrow> (string \<Rightarrow> pyerror + 'f json) \<Rightarrow> 'f float_ops
     \<Rightarrow> IdeaInput \<Rightarrow> 'f AnalysisResult \<times> pyerror list" where
  "analyze_idea client loads fl idea_input =
     (let prompt = build_analysis_prompt idea_input
      in case client prompt of
           Inl e \<Rightarrow> (create_empty_result fl, [e])
         | Inr text \<Rightarrow> parse_claude_response loads fl text)"

section \<open>The schema of a score entry\<close>

text \<open>
  The prompt asks for score entries that are objects with the keys \<^verbatim>\<open>dimension\<close>,
  \<^verbatim>\<open>score\<close> and \<^verbatim>\<open>reasoning\<close> and nothing else, the score an integer from 0 to 5.
\<close>

fun entry_field :: "'f json \<Rightarrow> string \<Rightarrow> 'f json option" where
  "entry_field (JObj kvs) k = map_of kvs k"
| "entry_field _ k = None"

fun entry_keys :: "'f json \<Rightarrow> string list" where
  "entry_keys (JObj kvs) = map fst kvs"
| "entry_keys _ = []"

fun is_score_in_range :: "'f json option \<Rightarrow> bool" where
  "is_score_in_range (Some (JInt n)) = (0 \<le> n \<and> n \<le> 5)"
| "is_score_in_range _ = False"

definition score_entry_ok :: "'f json \<Rightarrow> bool" where
  "score_entry_ok e \<longleftrightarrow>
     list_all (\<lambda>k. k \<in> set score_fields) (entry_keys e) \<and>
     entry_field e ''dimension'' \<noteq> None \<and>
     entry_field e ''reasoning'' \<noteq> None \<and>
     is_score_in_range (entry_field e ''score'')"

text \<open>The values that \<^verbatim>\<open>sum\<close> accepts.\<close>

fun is_number :: "'f json \<Rightarrow> bool" where
  "is_number (JInt n) = True"
| "is_number (JBool b) = True"
| "is_number (JFloat f) = True"
| "is_number _ = False"

text \<open>
  The invariant of a result: no scores and the score \<^verbatim>\<open>0.0\<close>, or the score that
  \<^verbatim>\<open>sum(...) / len(...)\<close> computes from the scores, which for integer scores is
  their mean, rounded once.
\<close>

definition mean_invariant :: "'f float_ops \<Rightarrow> 'f AnalysisResult \<Rightarrow> bool" where
  "mean_invariant fl r \<longleftrightarrow>
     (scores r = [] \<longrightarrow> overall_score r = fl_round fl 0) \<and>
     (scores r \<noteq> [] \<longrightarrow>
        (\<exists>total. py_sum fl (map score (scores r)) = Inr total \<and>
                 py_truediv fl total (length (scores r)) = Inr (overall_score r))) \<and>
     (\<forall>ns. scores r \<noteq> [] \<and> map score (scores r) = map JInt ns \<longrightarrow>
        overall_score r = fl_round fl (of_int (sum_list ns) / of_nat (length ns)))"

section \<open>Example replies\<close>

text \<open>
  Exact rational arithmetic stands in for the doubles in the examples, and the decoder of
  the examples decodes the sample payloads below as \<^verbatim>\<open>json.loads\<close> does and rejects
  every other text.
\<close>

definition demo_fl :: "rat float_ops" where
  "demo_fl = \<lparr>fl_round = (\<lambda>q. q), fl_add = (\<lambda>a b. a + b), fl_div = (\<lambda>a b. a / b)\<rparr>"

definition payload_full :: string where
  \<open>payload_full =
     ''{"executive_summary": "Solid idea", "scores": [{"dimension": "Problem clarity", "score": 4, "reasoning": "clear"}, {"dimension": "User value", "score": 3, "reasoning": "useful"}, {"dimension": "Market size & urgency", "score": 5, "reasoning": "large"}, {"dimension": "Differentiation/moat", "score": 2, "reasoning": "some"}, {"dimension": "Technical feasibility in 48 hours", "score": 4, "reasoning": "tight"}, {"dimension": "Scalability path", "score": 3, "reasoning": "cloud"}, {"dimension": "Data dependencies", "score": 4, "reasoning": "few"}, {"dimension": "Risks & compliance", "score": 2, "reasoning": "low"}], "detailed_plan": "Build the core first", "risk_flags": ["Scope creep"], "build_checklist": ["Set up repo", "Record demo"], "tech_stack": {"Frontend": ["React"], "Backend": ["Flask"]}, "pitch_deck": {"slide1_problem": "P", "slide2_solution": "S", "slide3_techstack": "T", "slide4_market": "M", "slide5_business_model": "B"}}''\<close>

definition entries_full :: "rat json list" where
  "entries_full =
     [JObj [(''dimension'', JStr ''Problem clarity''), (''score'', JInt 4), (''reasoning'', JStr ''clear'')],
      JObj [(''dimension'', JStr ''User value''), (''score'', JInt 3), (''reasoning'', JStr ''useful'')],
      JObj [(''dimension'', JStr ''Market size & urgency''), (''score'', JInt 5), (''reasoning'', JStr ''large'')],
      JObj [(''dimension'', JStr ''Differentiation/moat''), (''score'', JInt 2), (''reasoning'', JStr ''some'')],
      JObj [(''dimension'', JStr ''Technical feasibility in 48 hours''), (''score'', JInt 4), (''reasoning'', JStr ''tight'')],
      JObj [(''dimension'', JStr ''Scalability path''), (''score'', JInt 3), (''reasoning'', JStr ''cloud'')],
      JObj [(''dimension'', JStr ''Data dependencies''), (''score'', JInt 4), (''reasoning'', JStr ''few'')],
      JObj [(''dimension'', JStr ''Risks & compliance''), (''score'', JInt 2), (''reasoning'', JStr ''low'')]]"

definition fields_full :: "(string \<times> rat json) list" where
  "fields_full =
     [(''executive_summary'', JStr ''Solid idea''),
      (''scores'', JArr entries_full),
      (''detailed_plan'', JStr ''Build the core first''),
      (''risk_flags'', JArr [JStr ''Scope creep'']),
      (''build_checklist'', JArr [JStr ''Set up repo'', JStr ''Record demo'']),
      (''tech_stack'', JObj [(''Frontend'', JArr [JStr ''React'']), (''Backend'', JArr [JStr ''Flask''])]),
      (''pitch_deck'', JObj [(''slide1_problem'', JStr ''P''), (''slide2_solution'', JStr ''S''), (''slide3_techstack'', JStr ''T''), (''slide4_market'', JStr ''M''), (''slide5_business_model'', JStr ''B'')])]"

definition value_full :: "rat json" where
  "value_full = JObj fields_full"

definition reply_full :: string where
  "reply_full = ''Here is the result:\<newline>```json\<newline>'' @ payload_full @ ''\<newline>```\<newline>Thanks!''"

definition payload_minimal :: string where
  \<open>payload_minimal =
     ''{"executive_summary": "Fine", "scores": [{"dimension": "Problem clarity", "score": 3, "reasoning": "ok"}], "detailed_plan": "Plan", "risk_flags": ["Time"], "build_checklist": ["Code"]}''\<close>

definition entries_minimal :: "rat json list" where
  "entries_minimal =
     [JObj [(''dimension'', JStr ''Problem clarity''), (''score'', JInt 3), (''reasoning'', JStr ''ok'')]]"

definition fields_minimal :: "(string \<times> rat json) list" where
  "fields_minimal =
     [(''executive_summary'', JStr ''Fine''),
      (''scores'', JArr entries_minimal),
      (''detailed_plan'', JStr ''Plan''),
      (''risk_flags'', JArr [JStr ''Time'']),
      (''build_checklist'', JArr [JStr ''Code''])]"

definition value_minimal :: "rat json" where
  "value_minimal = JObj fields_minimal"

definition reply_minimal :: string where
  "reply_minimal = ''Result: '' @ payload_minimal"

definition payload_empty_scores :: string where
  \<open>payload_empty_scores =
     ''{"executive_summary": "Fine", "scores": [], "detailed_plan": "Plan", "risk_flags": ["Time"], "build_checklist": ["Code"]}''\<close>

definition entries_empty_scores :: "rat json list" where
  "entries_empty_scores = []"

definition fields_empty_scores :: "(string \<times> rat json) list" where
  "fields_empty_scores =
     [(''executive_summary'', JStr ''Fine''),
      (''scores'', JArr entries_empty_scores),
      (''detailed_plan'', JStr ''Plan''),
      (''risk_flags'', JArr [JStr ''Time'']),
      (''build_checklist'', JArr [JStr ''Code''])]"

definition value_empty_scores :: "rat json" where
  "value_empty_scores = JObj fields_empty_scores"

definition reply_empty_scores :: string where
  "reply_empty_scores = payload_empty_scores"

definition payload_no_plan :: string where
  \<open>payload_no_plan =
     ''{"executive_summary": "Fine", "scores": [{"dimension": "Problem clarity", "score": 3, "reasoning": "ok"}], "risk_flags": ["Time"], "build_checklist": ["Code"]}''\<close>

definition entries_no_plan :: "rat json list" where
  "entries_no_plan =
     [JObj [(''dimension'', JStr ''Problem clarity''), (''score'', JInt 3), (''reasoning'', JStr ''ok'')]]"

definition fields_no_plan :: "(string \<times> rat json) list" where
  "fields_no_plan =
     [(''executive_summary'', JStr ''Fine''),
      (''scores'', JArr entries_no_plan),
      (''risk_flags'', JArr [JStr ''Time'']),
      (''build_checklist'', JArr [JStr ''Code''])]"

definition value_no_plan :: "rat json" where
  "value_no_plan = JObj fields_no_plan"

definition reply_no_plan :: string where
  "reply_no_plan = payload_no_plan"

definition payload_high_score :: string where
  \<open>payload_high_score =
     ''{"executive_summary": "Fine", "scores": [{"dimension": "Problem clarity", "score": 7, "reasoning": "great"}], "detailed_plan": "Plan", "risk_flags": ["Time"], "build_checklist": ["Code"]}''\<close>

definition entries_high_score :: "rat json list" where
  "entries_high_score =
     [JObj [(''dimension'', JStr ''Problem clarity''), (''score'', JInt 7), (''reasoning'', JStr ''great'')]]"

definition fields_high_score :: "(string \<times> rat json) list" where
  "fields_high_score =
     [(''executive_summary'', JStr ''Fine''),
      (''scores'', JArr entries_high_score),
      (''detailed_plan'', JStr ''Plan''),
      (''risk_flags'', JArr [JStr ''Time'']),
      (''build_checklist'', JArr [JStr ''Code''])]"

definition value_high_score :: "rat json" where
  "value_high_score = JObj fields_high_score"

definition reply_high_score :: string where
  "reply_high_score = payload_high_score"

definition payload_extra_key :: string where
  \<open>payload_extra_key =
     ''{"executive_summary": "Fine", "scores": [{"dimension": "Problem clarity", "score": 3, "reasoning": "ok", "confidence": 1}], "detailed_plan": "Plan", "risk_flags": ["Time"], "build_checklist": ["Code"]}''\<close>

definition entries_extra_key :: "rat json list" where
  "entries_extra_key =
     [JObj [(''dimension'', JStr ''Problem clarity''), (''score'', JInt 3), (''reasoning'', JStr ''ok''), (''confidence'', JInt 1)]]"

definition fields_extra_key :: "(string \<times> rat json) list" where
  "fields_extra_key =
     [(''executive_summary'', JStr ''Fine''),
      (''scores'', JArr entries_extra_key),
      (''detailed_plan'', JStr ''Plan''),
      (''risk_flags'', JArr [JStr ''Time'']),
      (''build_checklist'', JArr [JStr ''Code''])]"

definition value_extra_key :: "rat json" where
  "value_extra_key = JObj fields_extra_key"

definition reply_extra_key :: string where
  "reply_extra_key = payload_extra_key"

definition reply_no_json :: string where
  "reply_no_json = ''I cannot analyze this idea.''"

definition demo_loads :: "string \<Rightarrow> pyerror + rat json" where
  "demo_loads s =
     (if s = payload_full then Inr value_full
      else if s = payload_minimal then Inr value_minimal
      else if s = payload_empty_scores then Inr value_empty_scores
      else if s = payload_no_plan then Inr value_no_plan
      else if s = payload_high_score then Inr value_high_score
      else if s = payload_extra_key then Inr value_extra_key
      else Inl JSONDecodeError)"

definition demo_input :: IdeaInput where
  "demo_input =
     \<lparr>idea = ''Study group finder'', target_users = ''College students'',
      time_constraint = 48, team_size = 3, goals = ''Build a working prototype''\<rparr>"

definition demo_client :: "string \<Rightarrow> pyerror + string" where
  "demo_client prompt = Inr reply_full"

definition failing_client :: "string \<Rightarrow> pyerror + string" where
  "failing_client prompt = Inl APIError"

section \<open>Searching and slicing\<close>

lemma find_char_notin: "c \<notin> set s \<Longrightarrow> find_char c s = -1"
  by (induction s) auto

lemma find_char_ge: "- 1 \<le> find_char c s"
  by (induction s) (auto simp: Let_def)

lemma find_char_append: "c \<notin> set pre \<Longrightarrow> find_char c (pre @ c # rest) = int (length pre)"
  by (induction pre) (auto simp: Let_def)

lemma rfind_char_notin: "c \<notin> set s \<Longrightarrow> rfind_char c s = -1"
  by (induction s) auto

lemma rfind_char_append: "c \<notin> set post \<Longrightarrow> rfind_char c (xs @ c # post) = int (length xs)"
  by (induction xs) (auto simp: Let_def rfind_char_notin)

lemma rfind_char_bounds: "- 1 \<le> rfind_char c s \<and> rfind_char c s < int (length s)"
  by (induction s) (auto simp: Let_def)

lemma rfind_char_last:
  "rfind_char c s = int (length s) - 1 \<Longrightarrow> s \<noteq> [] \<Longrightarrow> last s = c"
proof (induction s)
  case Nil
  then show ?case by simp
next
  case (Cons x xs)
  show ?case
  proof (cases "xs = []")
    case True
    with Cons.prems show ?thesis by (auto simp: Let_def split: if_splits)
  next
    case False
    with Cons show ?thesis by (auto simp: Let_def split: if_splits)
  qed
qed

lemma py_slice_middle:
  "py_slice (pre @ txt @ post) (int (length pre)) (int (length pre) + int (length txt)) = txt"
  by (simp add: py_slice_def Let_def)

lemma extract_json_wrapped:
  assumes "CHR ''{'' \<notin> set pre" and "CHR ''}'' \<notin> set post"
  shows "extract_json (pre @ CHR ''{'' # mid @ CHR ''}'' # post) = CHR ''{'' # mid @ [CHR ''}'']"
proof -
  have f: "find_char CHR ''{'' (pre @ CHR ''{'' # mid @ CHR ''}'' # post) = int (length pre)"
    using assms(1) by (rule find_char_append)
  have "rfind_char CHR ''}'' ((pre @ CHR ''{'' # mid) @ CHR ''}'' # post) = int (length (pre @ CHR ''{'' # mid))"
    using assms(2) by (rule rfind_char_append)
  then have r: "rfind_char CHR ''}'' (pre @ CHR ''{'' # mid @ CHR ''}'' # post) = int (length pre) + int (length mid) + 1"
    by simp
  have "py_slice (pre @ (CHR ''{'' # mid @ [CHR ''}'']) @ post) (int (length pre))
          (int (length pre) + int (length (CHR ''{'' # mid @ [CHR ''}'']))) = CHR ''{'' # mid @ [CHR ''}'']"
    by (rule py_slice_middle)
  then show ?thesis
    by (simp add: extract_json_def Let_def f r add.commute add.left_commute)
qed

lemma extract_json_no_open:
  assumes "CHR ''{'' \<notin> set r"
  shows "extract_json r = [] \<or> extract_json r = ''}''"
proof (cases "r = []")
  case True
  then show ?thesis by (simp add: extract_json_def py_slice_def)
next
  case False
  have f: "find_char CHR ''{'' r = -1" using assms by (rule find_char_notin)
  let ?e = "rfind_char CHR ''}'' r + 1"
  have b: "0 \<le> ?e" "?e \<le> int (length r)" using rfind_char_bounds[of "CHR ''}''" r] by auto
  have len: "0 < length r" using False by simp
  show ?thesis
  proof (cases "?e = int (length r)")
    case True
    then have "last r = CHR ''}''" using rfind_char_last[of "CHR ''}''" r] False by simp
    moreover have "drop (length r - 1) r = [last r]"
      using False by (metis append_butlast_last_id append_eq_conv_conj length_butlast)
    ultimately show ?thesis using True len
      by (simp add: extract_json_def py_slice_def Let_def f nat_diff_distrib')
  next
    case False
    then have "?e \<le> int (length r) - 1" using b by simp
    then show ?thesis using len b
      by (simp add: extract_json_def py_slice_def Let_def f)
  qed
qed

section \<open>The steps of the interpreter\<close>

lemma and_then_Inl: "and_then (Inl e) f = Inl e"
  by (simp add: and_then_def)

lemma and_then_Inr: "and_then (Inr x) f = f x"
  by (simp add: and_then_def)

lemma and_then_eq_Inr: "and_then m f = Inr y \<longleftrightarrow> (\<exists>x. m = Inr x \<and> f x = Inr y)"
  by (cases m) (simp_all add: and_then_def)

lemma map_result_Inr:
  "map_result f xs = Inr ys \<longleftrightarrow> list_all2 (\<lambda>x y. f x = Inr y) xs ys"
proof (induction xs arbitrary: ys)
  case Nil
  then show ?case by auto
next
  case (Cons x xs)
  show ?case
    by (cases ys) (auto simp: Cons.IH [symmetric] split: sum.splits)
qed

lemma map_result_Inl:
  "x \<in> set xs \<Longrightarrow> f x = Inl e \<Longrightarrow> \<exists>e'. map_result f xs = Inl e'"
  by (induction xs) (auto split: sum.splits)

lemma py_sum_from_ints:
  "py_sum_from fl (PInt a) (map JInt ns) = Inr (PInt (a + sum_list ns))"
  by (induction ns arbitrary: a) (simp_all add: add.assoc)

lemma py_add_number: "py_add fl acc x = Inr acc' \<Longrightarrow> is_number x"
  by (cases "(fl, acc, x)" rule: py_add.cases) simp_all

lemma py_sum_from_numbers:
  "py_sum_from fl acc xs = Inr t \<Longrightarrow> list_all is_number xs"
  by (induction xs arbitrary: acc) (auto split: sum.splits dest: py_add_number)

lemma small_no_overflow: "\<bar>q\<bar> \<le> 2 ^ 1000 \<Longrightarrow> \<not> float_overflows q"
proof -
  have "(2::rat) ^ 1000 < 2 ^ 1024 - 2 ^ 970" by simp
  then show "\<bar>q\<bar> \<le> 2 ^ 1000 \<Longrightarrow> \<not> float_overflows q"
    by (simp add: float_overflows_def)
qed

lemma kwargs_of_entry:
  assumes "score_entry_ok e"
  shows "\<exists>s n. EvaluationScore_kwargs e = Inr s \<and>
           entry_field e ''dimension'' = Some (dimension s) \<and>
           entry_field e ''score'' = Some (score s) \<and>
           entry_field e ''reasoning'' = Some (reasoning s) \<and>
           score s = JInt n \<and> 0 \<le> n \<and> n \<le> 5"
proof (cases e)
  case (JObj kvs)
  from assms JObj obtain d r where d: "map_of kvs ''dimension'' = Some d"
    and r: "map_of kvs ''reasoning'' = Some r"
    by (auto simp: score_entry_ok_def)
  from assms JObj obtain n where n: "map_of kvs ''score'' = Some (JInt n)" "0 \<le> n" "n \<le> 5"
    by (auto simp: score_entry_ok_def elim: is_score_in_range.elims)
  from assms JObj have k: "list_all (\<lambda>kv. fst kv \<in> set score_fields) kvs"
    by (simp add: score_entry_ok_def list_all_iff)
  show ?thesis using JObj d r n k by simp
qed (use assms in \<open>simp_all add: score_entry_ok_def\<close>)

lemma build_result_Inr:
  "build_result fl data = Inr r \<longleftrightarrow>
     (\<exists>sv items total.
        subscript data ''scores'' = Inr sv \<and> py_iter sv = Inr items \<and>
        map_result EvaluationScore_kwargs items = Inr (scores r) \<and>
        py_sum fl (map score (scores r)) = Inr total \<and>
        py_truediv fl total (length (scores r)) = Inr (overall_score r) \<and>
        subscript data ''executive_summary'' = Inr (executive_summary r) \<and>
        subscript data ''detailed_plan'' = Inr (detailed_plan r) \<and>
        subscript data ''risk_flags'' = Inr (risk_flags r) \<and>
        subscript data ''build_checklist'' = Inr (build_checklist r) \<and>
        dict_get data ''tech_stack'' (JObj []) = Inr (tech_stack r) \<and>
        dict_get data ''pitch_deck'' (JObj []) = Inr (pitch_deck r))"
  unfolding build_result_def and_then_eq_Inr
  by (cases r) auto

lemma scores_of_entries:
  "list_all score_entry_ok entries \<Longrightarrow>
     \<exists>scs ns. map_result EvaluationScore_kwargs entries = Inr scs \<and>
       list_all2 (\<lambda>e s. entry_field e ''dimension'' = Some (dimension s) \<and>
                         entry_field e ''score'' = Some (score s) \<and>
                         entry_field e ''reasoning'' = Some (reasoning s)) entries scs \<and>
       map score scs = map JInt ns \<and> list_all (\<lambda>n. 0 \<le> n \<and> n \<le> 5) ns"
proof (induction entries)
  case Nil
  show ?case by simp
next
  case (Cons e entries)
  from Cons.prems have "score_entry_ok e" and "list_all score_entry_ok entries" by simp_all
  from kwargs_of_entry [OF this(1)] obtain s n where
    s: "EvaluationScore_kwargs e = Inr s" "entry_field e ''dimension'' = Some (dimension s)"
       "entry_field e ''score'' = Some (score s)" "entry_field e ''reasoning'' = Some (reasoning s)"
       "score s = JInt n" "0 \<le> n" "n \<le> 5"
    by blast
  from Cons.IH [OF \<open>list_all score_entry_ok entries\<close>] obtain scs ns where
    r: "map_result EvaluationScore_kwargs entries = Inr scs"
       "list_all2 (\<lambda>e s. entry_field e ''dimension'' = Some (dimension s) \<and>
                         entry_field e ''score'' = Some (score s) \<and>
                         entry_field e ''reasoning'' = Some (reasoning s)) entries scs"
       "map score scs = map JInt ns" "list_all (\<lambda>n. 0 \<le> n \<and> n \<le> 5) ns"
    by blast
  show ?case
    apply (rule exI [of _ "s # scs"])
    apply (rule exI [of _ "n # ns"])
    using s r by simp
qed

lemma sum_list_range:
  "list_all (\<lambda>n. 0 \<le> n \<and> n \<le> 5) ns \<Longrightarrow> 0 \<le> sum_list ns \<and> sum_list ns \<le> 5 * int (length ns)"
  by (induction ns) auto

lemma mean_no_overflow:
  assumes "list_all (\<lambda>n. 0 \<le> n \<and> n \<le> 5) ns" and "ns \<noteq> []"
  shows "\<not> float_overflows (of_int (sum_list ns) / of_nat (length ns))"
proof -
  let ?q = "(of_int (sum_list ns) / of_nat (length ns)) :: rat"
  have len: "0 < (of_nat (length ns) :: rat)" using assms(2) by simp
  from sum_list_range [OF assms(1)] have a: "0 \<le> sum_list ns" and b: "sum_list ns \<le> 5 * int (length ns)"
    by simp_all
  have "(of_int (sum_list ns) :: rat) \<le> of_int (5 * int (length ns))" using b by (simp only: of_int_le_iff)
  then have "(of_int (sum_list ns) :: rat) \<le> 5 * of_nat (length ns)" by simp
  then have "?q \<le> 5" using len by (simp add: pos_divide_le_eq)
  moreover have "0 \<le> ?q" using a by simp
  ultimately have "\<bar>?q\<bar> \<le> 2 ^ 1000" by simp
  then show ?thesis by (rule small_no_overflow)
qed

lemma build_result_ok:
  assumes "map_of kvs ''scores'' = Some (JArr entries)"
    and "entries \<noteq> []" and "list_all score_entry_ok entries"
    and "map_of kvs ''executive_summary'' = Some es"
    and "map_of kvs ''detailed_plan'' = Some dp"
    and "map_of kvs ''risk_flags'' = Some rf"
    and "map_of kvs ''build_checklist'' = Some bc"
  shows "\<exists>scs ns. build_result fl (JObj kvs) =
           Inr \<lparr>executive_summary = es, scores = scs, detailed_plan = dp,
                risk_flags = rf, build_checklist = bc,
                tech_stack = (case map_of kvs ''tech_stack'' of None \<Rightarrow> JObj [] | Some v \<Rightarrow> v),
                pitch_deck = (case map_of kvs ''pitch_deck'' of None \<Rightarrow> JObj [] | Some v \<Rightarrow> v),
                overall_score = fl_round fl (of_int (sum_list ns) / of_nat (length entries))\<rparr> \<and>
         list_all2 (\<lambda>e s. entry_field e ''dimension'' = Some (dimension s) \<and>
                         entry_field e ''score'' = Some (score s) \<and>
                         entry_field e ''reasoning'' = Some (reasoning s)) entries scs \<and>
         map score scs = map JInt ns \<and> list_all (\<lambda>n. 0 \<le> n \<and> n \<le> 5) ns"
proof -
  from scores_of_entries [OF assms(3)] obtain scs ns where
    r: "map_result EvaluationScore_kwargs entries = Inr scs"
       "list_all2 (\<lambda>e s. entry_field e ''dimension'' = Some (dimension s) \<and>
                         entry_field e ''score'' = Some (score s) \<and>
                         entry_field e ''reasoning'' = Some (reasoning s)) entries scs"
       "map score scs = map JInt ns" "list_all (\<lambda>n. 0 \<le> n \<and> n \<le> 5) ns"
    by blast
  from r(2) have l1: "length scs = length entries" by (simp add: list_all2_lengthD)
  from r(3) have "length (map score scs) = length (map JInt ns)" by simp
  then have l2: "length ns = length entries" using l1 by simp
  then have ne: "ns \<noteq> []" using assms(2) by auto
  have sum: "py_sum fl (map score scs) = Inr (PInt (sum_list ns))"
    using py_sum_from_ints [of fl 0 ns] by (simp add: py_sum_def r(3))
  have no: "\<not> float_overflows (of_int (sum_list ns) / of_nat (length entries))"
    using mean_no_overflow [OF r(4) ne] l2 by simp
  have "build_result fl (JObj kvs) =
           Inr \<lparr>executive_summary = es, scores = scs, detailed_plan = dp,
                risk_flags = rf, build_checklist = bc,
                tech_stack = (case map_of kvs ''tech_stack'' of None \<Rightarrow> JObj [] | Some v \<Rightarrow> v),
                pitch_deck = (case map_of kvs ''pitch_deck'' of None \<Rightarrow> JObj [] | Some v \<Rightarrow> v),
                overall_score = fl_round fl (of_int (sum_list ns) / of_nat (length entries))\<rparr>"
    using assms(1,2,4-7) r(1) sum no l1
    by (simp add: build_result_def and_then_Inr split: option.splits)
  then show ?thesis using r by blast
qed

section \<open>The example replies, evaluated\<close>

lemmas payload_defs = payload_full_def payload_minimal_def payload_empty_scores_def
    payload_no_plan_def payload_high_score_def payload_extra_key_def

lemma demo_loads_payloads:
  "demo_loads payload_full = Inr value_full"
  "demo_loads payload_minimal = Inr value_minimal"
  "demo_loads payload_empty_scores = Inr value_empty_scores"
  "demo_loads payload_no_plan = Inr value_no_plan"
  "demo_loads payload_high_score = Inr value_high_score"
  "demo_loads payload_extra_key = Inr value_extra_key"
  "demo_loads [] = Inl JSONDecodeError"
  "demo_loads ''}'' = Inl JSONDecodeError"
  by (simp_all add: demo_loads_def payload_defs)

lemma extract_replies:
  "extract_json reply_full = payload_full"
  "extract_json reply_minimal = payload_minimal"
  "extract_json reply_empty_scores = payload_empty_scores"
  "extract_json reply_no_plan = payload_no_plan"
  "extract_json reply_high_score = payload_high_score"
  "extract_json reply_extra_key = payload_extra_key"
  "extract_json reply_no_json = []"
  by (simp_all add: extract_json_def py_slice_def Let_def payload_defs
      reply_full_def reply_minimal_def reply_empty_scores_def reply_no_plan_def
      reply_high_score_def reply_extra_key_def reply_no_json_def)

lemmas sample_defs = value_full_def fields_full_def entries_full_def
  value_minimal_def fields_minimal_def entries_minimal_def
  value_empty_scores_def fields_empty_scores_def entries_empty_scores_def
  value_no_plan_def fields_no_plan_def entries_no_plan_def
  value_high_score_def fields_high_score_def entries_high_score_def
  value_extra_key_def fields_extra_key_def entries_extra_key_def

lemmas eval_defs = build_result_def and_then_def py_sum_def score_fields_def float_overflows_def
  demo_fl_def sample_defs

lemma build_full:
  "build_result demo_fl value_full =
     Inr \<lparr>executive_summary = JStr ''Solid idea'',
          scores =
            [\<lparr>dimension = JStr ''Problem clarity'', score = JInt 4, reasoning = JStr ''clear''\<rparr>,
             \<lparr>dimension = JStr ''User value'', score = JInt 3, reasoning = JStr ''useful''\<rparr>,
             \<lparr>dimension = JStr ''Market size & urgency'', score = JInt 5, reasoning = JStr ''large''\<rparr>,
             \<lparr>dimension = JStr ''Differentiation/moat'', score = JInt 2, reasoning = JStr ''some''\<rparr>,
             \<lparr>dimension = JStr ''Technical feasibility in 48 hours'', score = JInt 4, reasoning = JStr ''tight''\<rparr>,
             \<lparr>dimension = JStr ''Scalability path'', score = JInt 3, reasoning = JStr ''cloud''\<rparr>,
             \<lparr>dimension = JStr ''Data dependencies'', score = JInt 4, reasoning = JStr ''few''\<rparr>,
             \<lparr>dimension = JStr ''Risks & compliance'', score = JInt 2, reasoning = JStr ''low''\<rparr>],
          detailed_plan = JStr ''Build the core first'',
          risk_flags = JArr [JStr ''Scope creep''],
          build_checklist = JArr [JStr ''Set up repo'', JStr ''Record demo''],
          tech_stack = JObj [(''Frontend'', JArr [JStr ''React'']), (''Backend'', JArr [JStr ''Flask''])],
          pitch_deck = JObj [(''slide1_problem'', JStr ''P''), (''slide2_solution'', JStr ''S''),
             (''slide3_techstack'', JStr ''T''), (''slide4_market'', JStr ''M''),
             (''slide5_business_model'', JStr ''B'')],
          overall_score = 27 / 8\<rparr>"
  by (simp add: eval_defs)

lemma build_minimal:
  "build_result demo_fl value_minimal =
     Inr \<lparr>executive_summary = JStr ''Fine'',
          scores = [\<lparr>dimension = JStr ''Problem clarity'', score = JInt 3, reasoning = JStr ''ok''\<rparr>],
          detailed_plan = JStr ''Plan'', risk_flags = JArr [JStr ''Time''],
          build_checklist = JArr [JStr ''Code''], tech_stack = JObj [], pitch_deck = JObj [],
          overall_score = 3\<rparr>"
  by (simp add: eval_defs)

lemma build_high_score:
  "build_result demo_fl value_high_score =
     Inr \<lparr>executive_summary = JStr ''Fine'',
          scores = [\<lparr>dimension = JStr ''Problem clarity'', score = JInt 7, reasoning = JStr ''great''\<rparr>],
          detailed_plan = JStr ''Plan'', risk_flags = JArr [JStr ''Time''],
          build_checklist = JArr [JStr ''Code''], tech_stack = JObj [], pitch_deck = JObj [],
          overall_score = 7\<rparr>"
  by (simp add: eval_defs)

lemma build_failures:
  "build_result demo_fl value_empty_scores = Inl ZeroDivisionError"
  "build_result demo_fl value_no_plan = Inl (KeyError ''detailed_plan'')"
  "build_result demo_fl value_extra_key = Inl TypeError"
  by (simp_all add: eval_defs)

lemma parse_failure:
  "parse_body loads fl response = Inl e \<Longrightarrow>
     parse_claude_response loads fl response = (create_empty_result fl, [e])"
  by (simp add: parse_claude_response_def)

lemma parse_success:
  "extract_json response = payload \<Longrightarrow> loads payload = Inr data \<Longrightarrow> build_result fl data = Inr r \<Longrightarrow>
     parse_claude_response loads fl response = (r, [])"
  by (simp add: parse_claude_response_def parse_body_def)

lemma parse_build_failure:
  "extract_json response = payload \<Longrightarrow> loads payload = Inr data \<Longrightarrow> build_result fl data = Inl e \<Longrightarrow>
     parse_claude_response loads fl response = (create_empty_result fl, [e])"
  by (simp add: parse_claude_response_def parse_body_def)

lemma parse_loads_failure:
  "extract_json response = payload \<Longrightarrow> loads payload = Inl e \<Longrightarrow>
     parse_claude_response loads fl response = (create_empty_result fl, [e])"
  by (simp add: parse_claude_response_def parse_body_def)

lemma delimited_text:
  assumes "payload \<noteq> []" and "hd payload = CHR ''{''" and "last payload = CHR ''}''"
  shows "\<exists>mid. payload = CHR ''{'' # mid @ [CHR ''}'']"
proof -
  from assms(1,2) have t: "payload = CHR ''{'' # tl payload" by (cases payload) simp_all
  have "tl payload \<noteq> []"
  proof
    assume "tl payload = []"
    with t have "payload = [CHR ''{'']" by simp
    with assms(3) show False by simp
  qed
  then have "tl payload = butlast (tl payload) @ [last (tl payload)]" by simp
  moreover have "last (tl payload) = last payload" using \<open>tl payload \<noteq> []\<close> t by (metis last_ConsR)
  ultimately have "payload = CHR ''{'' # butlast (tl payload) @ [CHR ''}'']" using t assms(3) by metis
  then show ?thesis by blast
qed

lemma extract_json_delimited:
  assumes "CHR ''{'' \<notin> set pre" and "CHR ''}'' \<notin> set post"
    and "payload \<noteq> []" and "hd payload = CHR ''{''" and "last payload = CHR ''}''"
  shows "extract_json (pre @ payload @ post) = payload"
proof -
  from delimited_text [OF assms(3-5)] obtain mid where m: "payload = CHR ''{'' # mid @ [CHR ''}'']"
    by blast
  show ?thesis using extract_json_wrapped [OF assms(1,2), of mid] by (simp add: m)
qed

section \<open>The claims\<close>

text \<open>
  Claim C1 (schema round trip, fence tolerance). Let the reply be any prose or code fence
  without an opening brace, then a payload that begins with \<open>{\<close> and ends with
  \<open>}\<close>, then any text without a closing brace. If the payload decodes to an object
  that has the five required fields, \<^verbatim>\<open>tech_stack\<close> and \<^verbatim>\<open>pitch_deck\<close>, and eight score
  entries of the requested form, then the interpreter reports no error and returns a result
  that holds every field of the payload unchanged, the score entries field by field and
  in their order, and as overall score the mean of the eight scores, rounded once.
\<close>

theorem schema_round_trip:
  assumes "CHR ''{'' \<notin> set pre" and "CHR ''}'' \<notin> set post"
    and "payload \<noteq> []" and "hd payload = CHR ''{''" and "last payload = CHR ''}''"
    and "loads payload = Inr (JObj kvs)"
    and "map_of kvs ''scores'' = Some (JArr entries)"
    and "length entries = 8" and "list_all score_entry_ok entries"
    and "map_of kvs ''executive_summary'' = Some es"
    and "map_of kvs ''detailed_plan'' = Some dp"
    and "map_of kvs ''risk_flags'' = Some rf"
    and "map_of kvs ''build_checklist'' = Some bc"
    and "map_of kvs ''tech_stack'' = Some ts"
    and "map_of kvs ''pitch_deck'' = Some pd"
  shows "\<exists>scs ns.
           parse_claude_response loads fl (pre @ payload @ post) =
             (\<lparr>executive_summary = es, scores = scs, detailed_plan = dp, risk_flags = rf,
               build_checklist = bc, tech_stack = ts, pitch_deck = pd,
               overall_score = fl_round fl (of_int (sum_list ns) / 8)\<rparr>, []) \<and>
           list_all2 (\<lambda>e s. entry_field e ''dimension'' = Some (dimension s) \<and>
                           entry_field e ''score'' = Some (score s) \<and>
                           entry_field e ''reasoning'' = Some (reasoning s)) entries scs \<and>
           map score scs = map JInt ns"
proof -
  have ne: "entries \<noteq> []" using assms(8) by auto
  from build_result_ok [OF assms(7) ne assms(9-13), of fl] obtain scs ns where
    b: "build_result fl (JObj kvs) =
           Inr \<lparr>executive_summary = es, scores = scs, detailed_plan = dp,
                risk_flags = rf, build_checklist = bc,
                tech_stack = (case map_of kvs ''tech_stack'' of None \<Rightarrow> JObj [] | Some v \<Rightarrow> v),
                pitch_deck = (case map_of kvs ''pitch_deck'' of None \<Rightarrow> JObj [] | Some v \<Rightarrow> v),
                overall_score = fl_round fl (of_int (sum_list ns) / of_nat (length entries))\<rparr>"
    and l: "list_all2 (\<lambda>e s. entry_field e ''dimension'' = Some (dimension s) \<and>
                         entry_field e ''score'' = Some (score s) \<and>
                         entry_field e ''reasoning'' = Some (reasoning s)) entries scs"
    and m: "map score scs = map JInt ns"
    by blast
  have x: "extract_json (pre @ payload @ post) = payload"
    using assms(1-5) by (rule extract_json_delimited)
  have "parse_claude_response loads fl (pre @ payload @ post) =
             (\<lparr>executive_summary = es, scores = scs, detailed_plan = dp, risk_flags = rf,
               build_checklist = bc, tech_stack = ts, pitch_deck = pd,
               overall_score = fl_round fl (of_int (sum_list ns) / 8)\<rparr>, [])"
    using x assms(6,8,14,15) b by (simp add: parse_claude_response_def parse_body_def)
  with l m show ?thesis by blast
qed

theorem schema_round_trip_witness:
  "\<exists>scs ns.
     parse_claude_response demo_loads demo_fl reply_full =
       (\<lparr>executive_summary = JStr ''Solid idea'', scores = scs,
         detailed_plan = JStr ''Build the core first'',
         risk_flags = JArr [JStr ''Scope creep''],
         build_checklist = JArr [JStr ''Set up repo'', JStr ''Record demo''],
         tech_stack = JObj [(''Frontend'', JArr [JStr ''React'']), (''Backend'', JArr [JStr ''Flask''])],
         pitch_deck = JObj [(''slide1_problem'', JStr ''P''), (''slide2_solution'', JStr ''S''),
             (''slide3_techstack'', JStr ''T''), (''slide4_market'', JStr ''M''),
             (''slide5_business_model'', JStr ''B'')],
         overall_score = fl_round demo_fl (of_int (sum_list ns) / 8)\<rparr>, []) \<and>
     list_all2 (\<lambda>e s. entry_field e ''dimension'' = Some (dimension s) \<and>
                     entry_field e ''score'' = Some (score s) \<and>
                     entry_field e ''reasoning'' = Some (reasoning s)) entries_full scs \<and>
     map score scs = map JInt ns"
proof -
  have h1: "CHR ''{'' \<notin> set ''Here is the result:\<newline>```json\<newline>''" by simp
  have h2: "CHR ''}'' \<notin> set ''\<newline>```\<newline>Thanks!''" by simp
  have h3: "payload_full \<noteq> []" "hd payload_full = CHR ''{''"
    by (simp_all add: payload_full_def)
  have h3': "last payload_full = CHR ''}''"
    unfolding payload_full_def by code_simp
  have h4: "demo_loads payload_full = Inr (JObj fields_full)"
    by (simp add: demo_loads_payloads value_full_def)
  have h5: "map_of fields_full ''scores'' = Some (JArr entries_full)"
    by (simp add: fields_full_def)
  have h6: "length entries_full = 8" by (simp add: entries_full_def)
  have h7: "list_all score_entry_ok entries_full"
    by (simp add: entries_full_def score_entry_ok_def score_fields_def)
  have h8: "map_of fields_full ''executive_summary'' = Some (JStr ''Solid idea'')"
    "map_of fields_full ''detailed_plan'' = Some (JStr ''Build the core first'')"
    "map_of fields_full ''risk_flags'' = Some (JArr [JStr ''Scope creep''])"
    "map_of fields_full ''build_checklist'' = Some (JArr [JStr ''Set up repo'', JStr ''Record demo''])"
    "map_of fields_full ''tech_stack'' = Some (JObj [(''Frontend'', JArr [JStr ''React'']), (''Backend'', JArr [JStr ''Flask''])])"
    "map_of fields_full ''pitch_deck'' = Some (JObj [(''slide1_problem'', JStr ''P''), (''slide2_solution'', JStr ''S''),
             (''slide3_techstack'', JStr ''T''), (''slide4_market'', JStr ''M''),
             (''slide5_business_model'', JStr ''B'')])"
    by (simp_all add: fields_full_def)
  show ?thesis
    unfolding reply_full_def
    by (rule schema_round_trip [where loads = demo_loads and kvs = fields_full,
          OF h1 h2 h3 h3' h4 h5 h6 h7 h8])
qed

end
